theory Spec2Isabelle
  imports Complex_Main "HOL-Library.Sublist"
begin

section \<open>Python values, exceptions and classes\<close>

text \<open>
  The values the wrapper of \<^verbatim>\<open>decorator.py\<close> handles. A dictionary is an association
  list of key and value (any value may be a key). An object carries the names of its class
  and of that class's ancestors (its method resolution order, the class itself first),
  whether that class is a dataclass, and its own field dictionary \<^verbatim>\<open>__dict__\<close>.
  Python floats are modelled as reals.
\<close>

datatype pyval =
    VNone
  | VBool bool
  | VInt int
  | VFloat real
  | VStr string
  | VList "pyval list"
  | VDict "(pyval \<times> pyval) list"
  | VObj "string list" bool "(string \<times> pyval) list"

text \<open>
  An exception: the names of its class and of that class's ancestors, and the text
  \<^verbatim>\<open>str(e)\<close>. A handler \<^verbatim>\<open>except C\<close> takes the exceptions that have \<^verbatim>\<open>C\<close> among
  these names; \<^verbatim>\<open>SystemExit\<close>, \<^verbatim>\<open>KeyboardInterrupt\<close> and \<^verbatim>\<open>GeneratorExit\<close>
  derive from \<^verbatim>\<open>BaseException\<close> without \<^verbatim>\<open>Exception\<close>. \<^verbatim>\<open>ValidationError\<close> is
  pydantic's.
\<close>

datatype exn = Exn (exn_mro: "string list") (exn_str: string)

definition is_Exception :: "exn \<Rightarrow> bool" where
  "is_Exception e = (''Exception'' \<in> set (exn_mro e))"

definition is_ValidationError :: "exn \<Rightarrow> bool" where
  "is_ValidationError e = (''ValidationError'' \<in> set (exn_mro e))"

definition TypeError :: "string \<Rightarrow> exn" where
  "TypeError msg = Exn [''TypeError'', ''Exception'', ''BaseException'', ''object''] msg"

definition AttributeError :: "string \<Rightarrow> exn" where
  "AttributeError msg =
     Exn [''AttributeError'', ''Exception'', ''BaseException'', ''object''] msg"

definition ValueError :: "string \<Rightarrow> exn" where
  "ValueError msg = Exn [''ValueError'', ''Exception'', ''BaseException'', ''object''] msg"

definition ValidationError :: "string \<Rightarrow> exn" where
  "ValidationError msg =
     Exn [''ValidationError'', ''ValueError'', ''Exception'', ''BaseException'', ''object''] msg"

definition SystemExit :: "string \<Rightarrow> exn" where
  "SystemExit msg = Exn [''SystemExit'', ''BaseException'', ''object''] msg"

definition quote :: string where
  "quote = [CHR 0x27]"

fun type_name :: "pyval \<Rightarrow> string" where
  "type_name VNone = ''NoneType''"
| "type_name (VBool _) = ''bool''"
| "type_name (VInt _) = ''int''"
| "type_name (VFloat _) = ''float''"
| "type_name (VStr _) = ''str''"
| "type_name (VList _) = ''list''"
| "type_name (VDict _) = ''dict''"
| "type_name (VObj mro _ _) = (case mro of [] \<Rightarrow> ''object'' | c # _ \<Rightarrow> c)"

text \<open>
  A class, as far as the wrapper uses one: its name, the names of the classes it derives
  from (itself first), and what calling it with keyword arguments does: \<open>None\<close> when an
  instance is constructed, \<open>Some e\<close> when the call raises \<open>e\<close>. For a pydantic model the
  call runs the schema validation, which raises \<^verbatim>\<open>ValidationError\<close> on a violation.
\<close>

record py_class =
  cls_name :: string
  cls_mro :: "string list"
  cls_init :: "(string \<times> pyval) list \<Rightarrow> exn option"

text \<open>
  A resolved type hint: a class, or a typing construct that is not a class
  (\<^verbatim>\<open>List[int]\<close>, \<^verbatim>\<open>Optional[X]\<close>, \<^verbatim>\<open>Any\<close>).
\<close>

datatype hint = HType py_class | HOther string

text \<open>\<^verbatim>\<open>isinstance(t, type) and issubclass(t, BaseModel)\<close>\<close>

definition is_model :: "hint \<Rightarrow> bool" where
  "is_model t = (case t of HType c \<Rightarrow> ''BaseModel'' \<in> set (cls_mro c) | HOther _ \<Rightarrow> False)"

definition isinstance :: "pyval \<Rightarrow> py_class \<Rightarrow> bool" where
  "isinstance v c = (case v of VObj mro _ _ \<Rightarrow> cls_name c \<in> set mro | _ \<Rightarrow> False)"

text \<open>Keyword unpacking \<^verbatim>\<open>**d\<close> of a dictionary takes string keys only.\<close>

fun str_keys :: "(pyval \<times> pyval) list \<Rightarrow> (string \<times> pyval) list option" where
  "str_keys [] = Some []"
| "str_keys ((VStr k, v) # kvs) = map_option ((#) (k, v)) (str_keys kvs)"
| "str_keys (_ # kvs) = None"

text \<open>
  The argument expression
  \<^verbatim>\<open>**value if isinstance(value, dict) else value.__dict__\<close>
  of the two coercion calls: a dictionary is unpacked itself, any other value through its
  \<^verbatim>\<open>__dict__\<close>, which numbers, strings, lists and \<^verbatim>\<open>None\<close> do not have.
\<close>

definition unpack_fields :: "pyval \<Rightarrow> exn + (string \<times> pyval) list" where
  "unpack_fields v =
     (case v of
        VDict kvs \<Rightarrow>
          (case str_keys kvs of
             Some kw \<Rightarrow> Inr kw
           | None \<Rightarrow> Inl (TypeError ''keywords must be strings''))
      | VObj mro dc attrs \<Rightarrow> Inr attrs
      | _ \<Rightarrow>
          Inl (AttributeError
                 (quote @ type_name v @ quote @ '' object has no attribute ''
                    @ quote @ ''__dict__'' @ quote)))"

text \<open>
  The accept-or-coerce check
  \<^verbatim>\<open>if not isinstance(value, t): t(**...)\<close>: \<open>None\<close> when the value is accepted or an
  instance can be constructed from it, \<open>Some e\<close> when the attempt raises \<open>e\<close>.
\<close>

definition coerce :: "py_class \<Rightarrow> pyval \<Rightarrow> exn option" where
  "coerce c v =
     (if isinstance v c then None
      else (case unpack_fields v of Inl e \<Rightarrow> Some e | Inr kw \<Rightarrow> cls_init c kw))"

section \<open>Callables, options and the environment\<close>

text \<open>
  A callable as the wrapper sees it.
  \<^item> \<open>fn_name\<close>: reading \<^verbatim>\<open>func.__name__\<close>, which raises \<^verbatim>\<open>AttributeError\<close> for a
    callable object without that attribute.
  \<^item> \<open>fn_signature\<close>: \<^verbatim>\<open>inspect.signature(func)\<close>, which raises for a callable without
    a readable signature (\<^verbatim>\<open>ValueError\<close> for built-ins such as \<^verbatim>\<open>min\<close>); the
    signature is given by its \<^verbatim>\<open>bind\<close> followed by \<^verbatim>\<open>apply_defaults\<close>, which
    answers the bound arguments in parameter order or raises \<^verbatim>\<open>TypeError\<close>.
  \<^item> \<open>fn_annotations\<close>: \<open>None\<close> when the callable has no \<^verbatim>\<open>__annotations__\<close>;
    otherwise what resolving them gives, the dictionary of hints (the return hint under
    the key \<^verbatim>\<open>return\<close>) or the exception that the resolution raises
    (\<^verbatim>\<open>NameError\<close> for a name that cannot be resolved).
  \<^item> \<open>fn_is_function\<close>: whether the callable is a module, class, method or function.
  \<^item> \<open>fn_call\<close>: the call itself, which returns a value or raises.
\<close>

type_synonym signature = "pyval list \<Rightarrow> (string \<times> pyval) list \<Rightarrow> exn + (string \<times> pyval) list"

record callable =
  fn_name :: "exn + string"
  fn_signature :: "exn + signature"
  fn_annotations :: "(exn + (string \<times> hint) list) option"
  fn_is_function :: bool
  fn_call :: "pyval list \<Rightarrow> (string \<times> pyval) list \<Rightarrow> exn + pyval"

text \<open>\<^verbatim>\<open>typing.get_type_hints(func)\<close>\<close>

definition get_type_hints :: "callable \<Rightarrow> exn + (string \<times> hint) list" where
  "get_type_hints func =
     (case fn_annotations func of
        None \<Rightarrow>
          if fn_is_function func then Inr []
          else Inl (TypeError ''is not a module, class, method, or function.'')
      | Some r \<Rightarrow> r)"

text \<open>The arguments of \<^verbatim>\<open>monitor_function\<close>; a flag holds the truth value of what was passed.\<close>

record options =
  validate_input :: bool
  validate_output :: bool
  log_execution :: bool
  log_level :: string
  return_raw_result :: bool

text \<open>
  What the environment answers during one invocation: \<^verbatim>\<open>time.time()\<close>,
  \<^verbatim>\<open>memory_info().rss\<close> and \<^verbatim>\<open>cpu_percent()\<close> before and after the guarded block,
  \<^verbatim>\<open>datetime.now().isoformat()\<close> when the envelope is built, the text of
  \<^verbatim>\<open>traceback.format_exc()\<close> while an exception is handled, and the time stamp that
  structlog's \<^verbatim>\<open>TimeStamper\<close> puts on a record. The clock and the sampler are taken not
  to raise.
\<close>

record samples =
  start_time :: real
  memory_before :: int
  cpu_before :: real
  end_time :: real
  memory_after :: int
  cpu_after :: real
  now_iso :: string
  format_exc :: "exn \<Rightarrow> string"
  log_time :: string

record ExecutionResult =
  result :: pyval
  status :: string
  errors :: "string list option"
  execution_time :: real
  memory_usage :: "(string \<times> int) list"
  cpu_usage :: real
  timestamp :: string
  function_name :: string

section \<open>The wrapper\<close>

text \<open>
  The hint of a name when it is a pydantic model class: the test of lines 94 to 98 for a
  parameter, and of lines 113 to 116 for \<^verbatim>\<open>return\<close>.
\<close>

definition model_hint :: "(string \<times> hint) list \<Rightarrow> string \<Rightarrow> py_class option" where
  "model_hint type_hints name =
     (case map_of type_hints name of
        None \<Rightarrow> None
      | Some expected_type \<Rightarrow>
          (case expected_type of
             HType c \<Rightarrow> if is_model expected_type then Some c else None
           | HOther _ \<Rightarrow> None))"

text \<open>The body of the loop for one bound argument, up to the exception it lets out.\<close>

definition param_check :: "(string \<times> hint) list \<Rightarrow> string \<Rightarrow> pyval \<Rightarrow> exn option" where
  "param_check type_hints param_name param_value =
     (case model_hint type_hints param_name of
        None \<Rightarrow> None
      | Some expected_type \<Rightarrow> coerce expected_type param_value)"

text \<open>
  The loop of lines 93 to 103 over the bound arguments. A \<^verbatim>\<open>ValidationError\<close> is
  recorded and the loop goes on; any other exception leaves the loop, with the errors
  recorded so far.
\<close>

fun validate_params ::
  "(string \<times> hint) list \<Rightarrow> (string \<times> pyval) list \<Rightarrow> string list \<Rightarrow> string list \<times> exn option"
where
  "validate_params type_hints [] errs = (errs, None)"
| "validate_params type_hints ((param_name, param_value) # rest) errs =
     (case param_check type_hints param_name param_value of
        None \<Rightarrow> validate_params type_hints rest errs
      | Some e \<Rightarrow>
          if is_ValidationError e
          then validate_params type_hints rest
                 (errs @ [''Input validation failed for '' @ param_name @ '': '' @ exn_str e])
          else (errs, Some e))"

text \<open>
  An argument whose check raises an exception that is not a \<^verbatim>\<open>ValidationError\<close>
  ends the loop.
\<close>

definition leaves_loop :: "(string \<times> hint) list \<Rightarrow> string \<times> pyval \<Rightarrow> bool" where
  "leaves_loop type_hints pv =
     (case param_check type_hints (fst pv) (snd pv) of
        None \<Rightarrow> False
      | Some e \<Rightarrow> \<not> is_ValidationError e)"

text \<open>
  An argument whose check raises an exception that no handler of the wrapper takes.
\<close>

definition escapes :: "(string \<times> hint) list \<Rightarrow> string \<times> pyval \<Rightarrow> bool" where
  "escapes type_hints pv =
     (case param_check type_hints (fst pv) (snd pv) of
        None \<Rightarrow> False
      | Some e \<Rightarrow> \<not> is_ValidationError e \<and> \<not> is_Exception e)"

text \<open>
  The handler of lines 105 and 106: an exception that \<^verbatim>\<open>except Exception\<close> takes is
  recorded, any other one leaves the wrapper.
\<close>

definition except_input :: "exn \<Rightarrow> string list \<Rightarrow> exn + string list" where
  "except_input e errs =
     (if is_Exception e then Inr (errs @ [''Input validation error: '' @ exn_str e])
      else Inl e)"

definition scan_errors ::
  "(string \<times> hint) list \<Rightarrow> (string \<times> pyval) list \<Rightarrow> exn + string list"
where
  "scan_errors type_hints bound_args =
     (case validate_params type_hints bound_args [] of
        (errs, None) \<Rightarrow> Inr errs
      | (errs, Some e) \<Rightarrow> except_input e errs)"

text \<open>
  Lines 86 to 106: the errors list after input validation, or the exception that leaves
  the wrapper. The same handler takes a failure of the binding.
\<close>

definition input_validation ::
  "options \<Rightarrow> signature \<Rightarrow> (string \<times> hint) list \<Rightarrow> pyval list \<Rightarrow> (string \<times> pyval) list
     \<Rightarrow> exn + string list"
where
  "input_validation opts sig type_hints args kwargs =
     (if validate_input opts \<and> type_hints \<noteq> [] then
        (case sig args kwargs of
           Inl e \<Rightarrow> except_input e []
         | Inr bound_args \<Rightarrow> scan_errors type_hints bound_args)
      else Inr [])"

text \<open>
  The local variables when the guarded block of lines 84 to 130 is left, whether the
  underlying function was called, and the exception that leaves the block, if one does.
\<close>

record locals =
  l_result :: pyval
  l_status :: string
  l_errors :: "string list"
  l_called :: bool
  l_raised :: "exn option"

text \<open>
  The handler of lines 126 to 130, for an exception raised where the locals are \<open>l\<close>:
  \<^verbatim>\<open>except Exception\<close> does not take an exception that derives from
  \<^verbatim>\<open>BaseException\<close> only, which leaves the block.
\<close>

definition except_Exception :: "samples \<Rightarrow> exn \<Rightarrow> locals \<Rightarrow> locals" where
  "except_Exception s e l =
     (if is_Exception e
      then l\<lparr>l_result := VNone, l_status := ''error'',
             l_errors := l_errors l
               @ [''Execution error: '' @ exn_str e, ''Traceback: '' @ format_exc s e]\<rparr>
      else l\<lparr>l_raised := Some e\<rparr>)"

definition try_block ::
  "options \<Rightarrow> callable \<Rightarrow> signature \<Rightarrow> (string \<times> hint) list \<Rightarrow> samples
     \<Rightarrow> pyval list \<Rightarrow> (string \<times> pyval) list \<Rightarrow> locals"
where
  "try_block opts func sig type_hints s args kwargs =
     (let l0 = \<lparr>l_result = VNone, l_status = ''success'', l_errors = [], l_called = False,
                l_raised = None\<rparr>
      in case input_validation opts sig type_hints args kwargs of
           Inl e \<Rightarrow> l0\<lparr>l_raised := Some e\<rparr>
         | Inr errs \<Rightarrow>
             if errs = [] then
               (case fn_call func args kwargs of
                  Inl e \<Rightarrow> except_Exception s e (l0\<lparr>l_called := True\<rparr>)
                | Inr res \<Rightarrow>
                    (let l1 = l0\<lparr>l_result := res, l_called := True\<rparr>
                     in if validate_output opts then
                          (case model_hint type_hints ''return'' of
                             None \<Rightarrow> l1
                           | Some return_type \<Rightarrow>
                               (case coerce return_type res of
                                  None \<Rightarrow> l1
                                | Some e \<Rightarrow>
                                    if is_ValidationError e
                                    then l1\<lparr>l_status := ''error'',
                                            l_errors :=
                                              l_errors l1
                                                @ [''Output validation failed: ''
                                                     @ exn_str e]\<rparr>
                                    else except_Exception s e l1))
                        else l1))
             else l0\<lparr>l_status := ''error'', l_errors := errs\<rparr>)"

text \<open>Lines 132 to 159: the metrics and the envelope.\<close>

definition build_result :: "string \<Rightarrow> samples \<Rightarrow> locals \<Rightarrow> ExecutionResult" where
  "build_result name s l =
     \<lparr>result = l_result l,
      status = l_status l,
      errors = (if l_errors l = [] then None else Some (l_errors l)),
      execution_time = end_time s - start_time s,
      memory_usage =
        [(''before'', memory_before s), (''after'', memory_after s),
         (''peak'', memory_after s), (''delta'', memory_after s - memory_before s)],
      cpu_usage = max (cpu_before s) (cpu_after s),
      timestamp = now_iso s,
      function_name = name\<rparr>"

text \<open>
  \<^verbatim>\<open>model_dump()\<close>: the envelope as a dictionary of its fields, in their order. The
  field \<^verbatim>\<open>result\<close> is declared \<^verbatim>\<open>Any\<close>, which pydantic serialises by the value it
  finds: an instance of a model or of a dataclass becomes the dictionary of its fields,
  containers are serialised element by element, every other value of this model stays as
  it is.
\<close>

primrec dump_any :: "pyval \<Rightarrow> pyval" where
  "dump_any VNone = VNone"
| "dump_any (VBool b) = VBool b"
| "dump_any (VInt i) = VInt i"
| "dump_any (VFloat x) = VFloat x"
| "dump_any (VStr s) = VStr s"
| "dump_any (VList vs) = VList (map dump_any vs)"
| "dump_any (VDict kvs) = VDict (map (map_prod dump_any dump_any) kvs)"
| "dump_any (VObj mro dc attrs) =
     (if ''BaseModel'' \<in> set mro \<or> dc
      then VDict (map (map_prod VStr dump_any) attrs)
      else VObj mro dc attrs)"

definition model_dump :: "ExecutionResult \<Rightarrow> pyval" where
  "model_dump r =
     VDict
       [(VStr ''result'', dump_any (result r)),
        (VStr ''status'', VStr (status r)),
        (VStr ''errors'', (case errors r of None \<Rightarrow> VNone | Some es \<Rightarrow> VList (map VStr es))),
        (VStr ''execution_time'', VFloat (execution_time r)),
        (VStr ''memory_usage'', VDict (map (map_prod VStr VInt) (memory_usage r))),
        (VStr ''cpu_usage'', VFloat (cpu_usage r)),
        (VStr ''timestamp'', VStr (timestamp r)),
        (VStr ''function_name'', VStr (function_name r))]"

subsection \<open>The logger\<close>

text \<open>
  Lines 16 to 30 read the threshold \<^verbatim>\<open>LOG_LEVEL\<close> from the environment (10 when
  unset) and make a structlog filtering bound logger for it. structlog has such a logger
  for the levels below only: with any other number the module fails when it is imported,
  and there is no wrapper to call.
\<close>

datatype level = NOTSET | DEBUG | INFO | WARNING | ERROR | CRITICAL

fun level_no :: "level \<Rightarrow> int" where
  "level_no NOTSET = 0"
| "level_no DEBUG = 10"
| "level_no INFO = 20"
| "level_no WARNING = 30"
| "level_no ERROR = 40"
| "level_no CRITICAL = 50"

fun method_name :: "level \<Rightarrow> string" where
  "method_name NOTSET = ''notset''"
| "method_name DEBUG = ''debug''"
| "method_name INFO = ''info''"
| "method_name WARNING = ''warning''"
| "method_name ERROR = ''error''"
| "method_name CRITICAL = ''critical''"

text \<open>
  \<^verbatim>\<open>JSONRenderer\<close> passes the event dictionary to \<^verbatim>\<open>json.dumps\<close> with a fallback
  that renders any value it does not know by \<^verbatim>\<open>repr\<close>. There is no fallback for the
  keys of a dictionary: a key must be a string, a number, a boolean or \<^verbatim>\<open>None\<close>.
\<close>

fun json_key :: "pyval \<Rightarrow> bool" where
  "json_key (VStr _) = True"
| "json_key (VInt _) = True"
| "json_key (VFloat _) = True"
| "json_key (VBool _) = True"
| "json_key VNone = True"
| "json_key _ = False"

primrec json_renders :: "pyval \<Rightarrow> bool" where
  "json_renders VNone = True"
| "json_renders (VBool b) = True"
| "json_renders (VInt i) = True"
| "json_renders (VFloat x) = True"
| "json_renders (VStr s) = True"
| "json_renders (VList vs) = list_all (\<lambda>ok. ok) (map json_renders vs)"
| "json_renders (VDict kvs) =
     list_all (\<lambda>(k, ok). json_key k \<and> ok) (map (map_prod (\<lambda>k. k) json_renders) kvs)"
| "json_renders (VObj mro dc attrs) = True"

text \<open>A call of a method of the logger: the method, the event and the keyword arguments.\<close>

record logger_call =
  lc_method :: level
  lc_event :: string
  lc_kw :: "(pyval \<times> pyval) list"

text \<open>
  What a call of the logger does: the records it emits and the exception it raises. A
  method below the threshold does nothing. Otherwise the event dictionary is made of the
  keyword arguments and the event; \<^verbatim>\<open>TimeStamper\<close> sets its key \<^verbatim>\<open>timestamp\<close>,
  which replaces the time stamp of the envelope, \<^verbatim>\<open>add_log_level\<close> adds the name of
  the method, and \<^verbatim>\<open>JSONRenderer\<close> renders the dictionary as one line for the print
  logger, or raises \<^verbatim>\<open>TypeError\<close>, in which case nothing is emitted. A record is given
  as the event dictionary that is rendered.
\<close>

definition set_key :: "pyval \<Rightarrow> pyval \<Rightarrow> (pyval \<times> pyval) list \<Rightarrow> (pyval \<times> pyval) list" where
  "set_key k v kvs =
     (if k \<in> set (map fst kvs) then map (\<lambda>(k', v'). if k' = k then (k', v) else (k', v')) kvs
      else kvs @ [(k, v)])"

definition event_dict :: "samples \<Rightarrow> logger_call \<Rightarrow> pyval" where
  "event_dict s c =
     VDict (set_key (VStr ''level'') (VStr (method_name (lc_method c)))
             (set_key (VStr ''timestamp'') (VStr (log_time s))
               (set_key (VStr ''event'') (VStr (lc_event c)) (lc_kw c))))"

record logging =
  lg_calls :: "logger_call list"
  lg_emitted :: "pyval list"
  lg_raised :: "exn option"

definition logger_method :: "level \<Rightarrow> samples \<Rightarrow> logger_call \<Rightarrow> logging" where
  "logger_method LOG_LEVEL s c =
     (if level_no (lc_method c) < level_no LOG_LEVEL
      then \<lparr>lg_calls = [c], lg_emitted = [], lg_raised = None\<rparr>
      else if json_renders (event_dict s c)
      then \<lparr>lg_calls = [c], lg_emitted = [event_dict s c], lg_raised = None\<rparr>
      else \<lparr>lg_calls = [c], lg_emitted = [],
             lg_raised = Some (TypeError ''keys must be str, int, float, bool or None'')\<rparr>)"

text \<open>
  \<^verbatim>\<open>str.upper()\<close> on the ASCII letters; other characters are left as they are (none of
  them has a letter of \<^verbatim>\<open>DEBUG\<close> as its upper case).
\<close>

definition upper_char :: "char \<Rightarrow> char" where
  "upper_char c =
     (case map_of (zip ''abcdefghijklmnopqrstuvwxyz'' ''ABCDEFGHIJKLMNOPQRSTUVWXYZ'') c of
        Some u \<Rightarrow> u
      | None \<Rightarrow> c)"

definition upper :: "string \<Rightarrow> string" where
  "upper s = map upper_char s"

text \<open>The keyword arguments \<^verbatim>\<open>**log_data\<close> of the call.\<close>

definition items :: "pyval \<Rightarrow> (pyval \<times> pyval) list" where
  "items v = (case v of VDict kvs \<Rightarrow> kvs | _ \<Rightarrow> [])"

text \<open>Lines 162 to 171.\<close>

definition structured_logging ::
  "level \<Rightarrow> options \<Rightarrow> samples \<Rightarrow> string \<Rightarrow> ExecutionResult \<Rightarrow> logging"
where
  "structured_logging LOG_LEVEL opts s st execution_result =
     (if log_execution opts then
        (let log_data = items (model_dump execution_result) in
         if st = ''success'' then
           (if upper (log_level opts) = ''DEBUG''
            then logger_method LOG_LEVEL s
                   \<lparr>lc_method = DEBUG, lc_event = ''Function executed successfully'',
                    lc_kw = log_data\<rparr>
            else logger_method LOG_LEVEL s
                   \<lparr>lc_method = INFO, lc_event = ''Function executed successfully'',
                    lc_kw = log_data\<rparr>)
         else logger_method LOG_LEVEL s
                \<lparr>lc_method = ERROR, lc_event = ''Function execution failed'',
                 lc_kw = log_data\<rparr>)
      else \<lparr>lg_calls = [], lg_emitted = [], lg_raised = None\<rparr>)"

subsection \<open>One invocation\<close>

text \<open>
  One invocation of the wrapper: what the caller receives, a value or an exception; the
  envelope, when one was built; whether the underlying function was called; the calls of
  the logger, and the records they emitted. The invocation depends on the threshold
  \<^verbatim>\<open>LOG_LEVEL\<close> of the module, on the options of the decorator, on the function, on
  what the environment answers, and on the arguments.
\<close>

record outcome =
  returned :: "exn + pyval"
  envelope :: "ExecutionResult option"
  called :: bool
  logger_calls :: "logger_call list"
  emitted :: "pyval list"

definition raises :: "exn \<Rightarrow> bool \<Rightarrow> outcome" where
  "raises e c =
     \<lparr>returned = Inl e, envelope = None, called = c, logger_calls = [], emitted = []\<rparr>"

definition wrapper ::
  "level \<Rightarrow> options \<Rightarrow> callable \<Rightarrow> samples \<Rightarrow> pyval list \<Rightarrow> (string \<times> pyval) list \<Rightarrow> outcome"
where
  "wrapper LOG_LEVEL opts func s args kwargs =
     (case fn_signature func of
        Inl e \<Rightarrow> raises e False
      | Inr sig \<Rightarrow>
     (case get_type_hints func of
        Inl e \<Rightarrow> raises e False
      | Inr type_hints \<Rightarrow>
     (let l = try_block opts func sig type_hints s args kwargs in
      case l_raised l of
        Some e \<Rightarrow> raises e (l_called l)
      | None \<Rightarrow>
     (case fn_name func of
        Inl e \<Rightarrow> raises e (l_called l)
      | Inr name \<Rightarrow>
     (let execution_result = build_result name s l;
          lg = structured_logging LOG_LEVEL opts s (l_status l) execution_result
      in \<lparr>returned =
            (case lg_raised lg of
               Some e \<Rightarrow> Inl e
             | None \<Rightarrow>
                 Inr (if return_raw_result opts \<and> l_status l = ''success''
                      then l_result l
                      else model_dump execution_result)),
          envelope = Some execution_result,
          called = l_called l,
          logger_calls = lg_calls lg,
          emitted = lg_emitted lg\<rparr>)))))"

text \<open>
  The decorated callable. \<^verbatim>\<open>functools.wraps\<close> copies \<^verbatim>\<open>__name__\<close> and
  \<^verbatim>\<open>__annotations__\<close> of the function where it has them (the wrapper is a function
  named \<^verbatim>\<open>wrapper\<close> without annotations of its own), the annotations are resolved
  where the function was defined, and \<^verbatim>\<open>inspect.signature\<close> follows
  \<^verbatim>\<open>__wrapped__\<close> to the signature of the function.
\<close>

definition monitor_function :: "level \<Rightarrow> options \<Rightarrow> samples \<Rightarrow> callable \<Rightarrow> callable" where
  "monitor_function LOG_LEVEL opts s func =
     \<lparr>fn_name = Inr (case fn_name func of Inl e \<Rightarrow> ''wrapper'' | Inr name \<Rightarrow> name),
      fn_signature = fn_signature func,
      fn_annotations =
        (case fn_annotations func of None \<Rightarrow> Some (Inr []) | Some r \<Rightarrow> Some r),
      fn_is_function = True,
      fn_call = (\<lambda>args kwargs. returned (wrapper LOG_LEVEL opts func s args kwargs))\<rparr>"

section \<open>Plain functions and the examples of main.py\<close>

text \<open>
  \<^verbatim>\<open>Signature.bind\<close> and \<^verbatim>\<open>apply_defaults\<close> for a signature of ordinary parameters
  (positional or keyword, with or without a default). Positional arguments fill the
  parameters from the left; a parameter filled that way must not be named by a keyword
  argument as well. Each remaining parameter takes its keyword argument or else its
  default, and no keyword argument may be left over. The bound arguments come in the
  order of the parameters.
\<close>

datatype param = Param (p_name: string) (p_default: "pyval option")

fun bind_positional ::
  "param list \<Rightarrow> pyval list \<Rightarrow> (string \<times> pyval) list
     \<Rightarrow> exn + ((string \<times> pyval) list \<times> param list)"
where
  "bind_positional ps [] kwargs = Inr ([], ps)"
| "bind_positional [] (a # as) kwargs = Inl (TypeError ''too many positional arguments'')"
| "bind_positional (p # ps) (a # as) kwargs =
     (if p_name p \<in> set (map fst kwargs)
      then Inl (TypeError (''multiple values for argument '' @ quote @ p_name p @ quote))
      else (case bind_positional ps as kwargs of
              Inl e \<Rightarrow> Inl e
            | Inr (bound, rest) \<Rightarrow> Inr ((p_name p, a) # bound, rest)))"

fun bind_keywords ::
  "param list \<Rightarrow> (string \<times> pyval) list \<Rightarrow> exn + (string \<times> pyval) list"
where
  "bind_keywords [] kwargs =
     (case kwargs of
        [] \<Rightarrow> Inr []
      | (k, _) # _ \<Rightarrow>
          Inl (TypeError (''got an unexpected keyword argument '' @ quote @ k @ quote)))"
| "bind_keywords (p # ps) kwargs =
     (case map_of kwargs (p_name p) of
        Some v \<Rightarrow>
          (case bind_keywords ps (filter (\<lambda>kv. fst kv \<noteq> p_name p) kwargs) of
             Inl e \<Rightarrow> Inl e
           | Inr bound \<Rightarrow> Inr ((p_name p, v) # bound))
      | None \<Rightarrow>
          (case p_default p of
             None \<Rightarrow>
               Inl (TypeError (''missing a required argument: '' @ quote @ p_name p @ quote))
           | Some d \<Rightarrow>
               (case bind_keywords ps kwargs of
                  Inl e \<Rightarrow> Inl e
                | Inr bound \<Rightarrow> Inr ((p_name p, d) # bound))))"

definition bind_plain :: "param list \<Rightarrow> signature" where
  "bind_plain ps args kwargs =
     (case bind_positional ps args kwargs of
        Inl e \<Rightarrow> Inl e
      | Inr (bound, rest) \<Rightarrow>
          (case bind_keywords rest kwargs of
             Inl e \<Rightarrow> Inl e
           | Inr others \<Rightarrow> Inr (bound @ others)))"

text \<open>
  A function written with \<^verbatim>\<open>def\<close>: it has a name, a signature and annotations (an
  empty dictionary when none is written); a call binds the arguments in the same way (the
  interpreter words its \<^verbatim>\<open>TypeError\<close> differently) and runs the body on the bound
  arguments.
\<close>

definition py_def ::
  "string \<Rightarrow> param list \<Rightarrow> (string \<times> hint) list \<Rightarrow> ((string \<times> pyval) list \<Rightarrow> exn + pyval)
     \<Rightarrow> callable"
where
  "py_def name ps type_hints body =
     \<lparr>fn_name = Inr name,
      fn_signature = Inr (bind_plain ps),
      fn_annotations = Some (Inr type_hints),
      fn_is_function = True,
      fn_call = (\<lambda>args kwargs.
        case bind_plain ps args kwargs of Inl e \<Rightarrow> Inl e | Inr bound \<Rightarrow> body bound)\<rparr>"

text \<open>
  A pydantic model without validators of its own, given by the fields it declares: the
  name of the field, whether it is required, and which values pydantic takes for its
  type, conversions included. The validation raises \<^verbatim>\<open>ValidationError\<close> when a
  required field is missing or the value of a field is not taken; fields that are not
  declared are ignored. The text of the error names the model and the fields at fault;
  its wording is pydantic's and is not modelled beyond that.
\<close>

type_synonym field = "string \<times> bool \<times> (pyval \<Rightarrow> bool)"

definition violations :: "field list \<Rightarrow> (string \<times> pyval) list \<Rightarrow> string list" where
  "violations decl kw =
     map fst
       (filter (\<lambda>(n, required, takes).
                  case map_of kw n of None \<Rightarrow> required | Some x \<Rightarrow> \<not> takes x) decl)"

definition BaseModel_init :: "string \<Rightarrow> field list \<Rightarrow> (string \<times> pyval) list \<Rightarrow> exn option" where
  "BaseModel_init name decl kw =
     (case violations decl kw of
        [] \<Rightarrow> None
      | bad \<Rightarrow>
          Some (ValidationError
                  (''validation errors for '' @ name @ '':''
                     @ concat (map (\<lambda>n. '' '' @ n) bad))))"

text \<open>
  The values taken for the types of the examples. A \<^verbatim>\<open>str\<close> field takes a string. An
  \<^verbatim>\<open>int\<close> field takes an integer, a boolean, a float without fraction, and a string
  of digits with an optional sign (pydantic reads some further spellings of a number).
\<close>

definition takes_str :: "pyval \<Rightarrow> bool" where
  "takes_str v = (case v of VStr _ \<Rightarrow> True | _ \<Rightarrow> False)"

definition digits :: "string \<Rightarrow> bool" where
  "digits s = (s \<noteq> [] \<and> list_all (\<lambda>c. c \<in> set ''0123456789'') s)"

definition takes_int :: "pyval \<Rightarrow> bool" where
  "takes_int v =
     (case v of
        VInt _ \<Rightarrow> True
      | VBool _ \<Rightarrow> True
      | VFloat x \<Rightarrow> x = of_int \<lfloor>x\<rfloor>
      | VStr s \<Rightarrow>
          (case s of
             [] \<Rightarrow> False
           | c # cs \<Rightarrow> if c = CHR ''-'' \<or> c = CHR ''+'' then digits cs else digits s)
      | _ \<Rightarrow> False)"

text \<open>The two models of \<^verbatim>\<open>main.py\<close>.\<close>

definition UserInput_fields :: "field list" where
  "UserInput_fields =
     [(''name'', True, takes_str), (''age'', True, takes_int), (''email'', True, takes_str)]"

definition UserInput :: py_class where
  "UserInput =
     \<lparr>cls_name = ''UserInput'',
      cls_mro = [''UserInput'', ''BaseModel'', ''object''],
      cls_init = BaseModel_init ''UserInput'' UserInput_fields\<rparr>"

definition UserOutput_fields :: "field list" where
  "UserOutput_fields =
     [(''id'', True, takes_int), (''name'', True, takes_str), (''age'', True, takes_int),
      (''email'', True, takes_str), (''created_at'', True, takes_str)]"

definition UserOutput :: py_class where
  "UserOutput =
     \<lparr>cls_name = ''UserOutput'',
      cls_mro = [''UserOutput'', ''BaseModel'', ''object''],
      cls_init = BaseModel_init ''UserOutput'' UserOutput_fields\<rparr>"

text \<open>The classes \<^verbatim>\<open>float\<close> and \<^verbatim>\<open>int\<close> as hints; the wrapper never calls them.\<close>

definition float_class :: py_class where
  "float_class =
     \<lparr>cls_name = ''float'', cls_mro = [''float'', ''object''], cls_init = (\<lambda>kw. None)\<rparr>"

definition int_class :: py_class where
  "int_class =
     \<lparr>cls_name = ''int'', cls_mro = [''int'', ''object''], cls_init = (\<lambda>kw. None)\<rparr>"

text \<open>Attribute access \<^verbatim>\<open>value.name\<close> on the object's own fields.\<close>

definition getattr :: "pyval \<Rightarrow> string \<Rightarrow> exn + pyval" where
  "getattr v name =
     (case (case v of VObj mro dc attrs \<Rightarrow> map_of attrs name | _ \<Rightarrow> None) of
        Some x \<Rightarrow> Inr x
      | None \<Rightarrow>
          Inl (AttributeError
                 (quote @ type_name v @ quote @ '' object has no attribute ''
                    @ quote @ name @ quote)))"

text \<open>
  \<^verbatim>\<open>create_user\<close>; \<open>created_at\<close> is what \<^verbatim>\<open>datetime.now().isoformat()\<close> answers
  inside the function. The first case of the body cannot occur after the binding.
\<close>

definition create_user_body :: "string \<Rightarrow> (string \<times> pyval) list \<Rightarrow> exn + pyval" where
  "create_user_body created_at bound =
     (case map_of bound ''user_data'' of
        None \<Rightarrow> Inl (TypeError ''user_data'')
      | Some user_data \<Rightarrow>
          (case getattr user_data ''name'' of
             Inl e \<Rightarrow> Inl e
           | Inr name \<Rightarrow>
               (case getattr user_data ''age'' of
                  Inl e \<Rightarrow> Inl e
                | Inr age \<Rightarrow>
                    (case getattr user_data ''email'' of
                       Inl e \<Rightarrow> Inl e
                     | Inr email \<Rightarrow>
                         (let kw = [(''id'', VInt 12345), (''name'', name), (''age'', age),
                                    (''email'', email), (''created_at'', VStr created_at)]
                          in case cls_init UserOutput kw of
                               Some e \<Rightarrow> Inl e
                             | None \<Rightarrow> Inr (VObj (cls_mro UserOutput) False kw))))))"

definition create_user :: "string \<Rightarrow> callable" where
  "create_user created_at =
     py_def ''create_user'' [Param ''user_data'' None]
       [(''user_data'', HType UserInput), (''return'', HType UserOutput)]
       (create_user_body created_at)"

text \<open>
  \<^verbatim>\<open>divide_numbers\<close>, on integers and floats. The last case of the body cannot occur
  after the binding.
\<close>

fun number :: "pyval \<Rightarrow> real option" where
  "number (VInt i) = Some (of_int i)"
| "number (VFloat x) = Some x"
| "number (VBool b) = Some (of_bool b)"
| "number _ = None"

definition divide_numbers_body :: "(string \<times> pyval) list \<Rightarrow> exn + pyval" where
  "divide_numbers_body bound =
     (case (map_of bound ''a'', map_of bound ''b'') of
        (Some a, Some b) \<Rightarrow>
          if number b = Some 0
          then Inl (ValueError ''Division by zero is not allowed'')
          else (case (number a, number b) of
                  (Some x, Some y) \<Rightarrow> Inr (VFloat (x / y))
                | _ \<Rightarrow> Inl (TypeError ''unsupported operand type(s) for /''))
      | _ \<Rightarrow> Inl (TypeError ''a''))"

definition divide_numbers :: callable where
  "divide_numbers =
     py_def ''divide_numbers'' [Param ''a'' None, Param ''b'' None]
       [(''a'', HType float_class), (''b'', HType float_class), (''return'', HType float_class)]
       divide_numbers_body"

text \<open>The options of \<^verbatim>\<open>main.py\<close> when the environment sets none of them.\<close>

definition main_options :: options where
  "main_options =
     \<lparr>validate_input = True, validate_output = True, log_execution = True,
      log_level = ''INFO'', return_raw_result = False\<rparr>"

text \<open>An environment; the trace it answers has one frame.\<close>

definition some_trace :: "exn \<Rightarrow> string" where
  "some_trace e =
     ''Traceback (most recent call last):'' @ [CHR 0x0A]
       @ ''  File decorator.py, line 110, in wrapper'' @ [CHR 0x0A]
       @ (case exn_mro e of [] \<Rightarrow> ''BaseException'' | c # _ \<Rightarrow> c) @ '': '' @ exn_str e
       @ [CHR 0x0A]"

definition some_samples :: samples where
  "some_samples =
     \<lparr>start_time = 100, memory_before = 5000, cpu_before = 0,
      end_time = 101, memory_after = 5200, cpu_after = 3,
      now_iso = ''2025-01-01T00:00:00'', format_exc = some_trace,
      log_time = ''2024-12-31T23:00:00Z''\<rparr>"

text \<open>Further inputs: functions, options and arguments used below.\<close>

text \<open>\<^verbatim>\<open>def user_count() -> UserOutput: return 3\<close>\<close>

definition user_count :: callable where
  "user_count =
     py_def ''user_count'' [] [(''return'', HType UserOutput)] (\<lambda>bound. Inr (VInt 3))"

text \<open>\<^verbatim>\<open>def echo(x): return x\<close>\<close>

definition echo :: callable where
  "echo =
     py_def ''echo'' [Param ''x'' None] []
       (\<lambda>bound. case map_of bound ''x'' of
                    None \<Rightarrow> Inl (TypeError ''x'')
                  | Some x \<Rightarrow> Inr x)"

text \<open>\<^verbatim>\<open>def link_users(first: UserInput, second: UserInput): return None\<close>\<close>

definition link_users :: callable where
  "link_users =
     py_def ''link_users'' [Param ''first'' None, Param ''second'' None]
       [(''first'', HType UserInput), (''second'', HType UserInput)]
       (\<lambda>bound. Inr VNone)"

text \<open>\<^verbatim>\<open>def shut_down(): sys.exit(1)\<close>\<close>

definition shut_down :: callable where
  "shut_down = py_def ''shut_down'' [] [] (\<lambda>bound. Inl (SystemExit ''1''))"

text \<open>
  The built-in \<^verbatim>\<open>min\<close>, on two integers: it has a name and no annotations, and
  \<^verbatim>\<open>inspect.signature\<close> finds no signature for it.
\<close>

definition builtin_min :: callable where
  "builtin_min =
     \<lparr>fn_name = Inr ''min'',
      fn_signature =
        Inl (ValueError ''no signature found for builtin <built-in function min>''),
      fn_annotations = None,
      fn_is_function = True,
      fn_call = (\<lambda>args kwargs.
        case (args, kwargs) of
          ([VInt a, VInt b], []) \<Rightarrow> Inr (VInt (min a b))
        | _ \<Rightarrow> Inl (TypeError ''min''))\<rparr>"

text \<open>
  An instance of
  \<^verbatim>\<open>class Stepper: step: int = 1; def __call__(self, x): return x + self.step\<close>,
  on an integer: a callable object with a signature and with the annotations of its
  class, and without \<^verbatim>\<open>__name__\<close>.
\<close>

definition stepper :: callable where
  "stepper =
     \<lparr>fn_name =
        Inl (AttributeError
               (quote @ ''Stepper'' @ quote @ '' object has no attribute ''
                  @ quote @ ''__name__'' @ quote)),
      fn_signature = Inr (bind_plain [Param ''x'' None]),
      fn_annotations = Some (Inr [(''step'', HType int_class)]),
      fn_is_function = False,
      fn_call = (\<lambda>args kwargs.
        case bind_plain [Param ''x'' None] args kwargs of
          Inl e \<Rightarrow> Inl e
        | Inr bound \<Rightarrow>
            (case map_of bound ''x'' of
               Some (VInt x) \<Rightarrow> Inr (VInt (x + 1))
             | _ \<Rightarrow> Inl (TypeError ''unsupported operand type(s) for +'')))\<rparr>"

definition quiet_options :: options where
  "quiet_options =
     \<lparr>validate_input = False, validate_output = False, log_execution = False,
      log_level = ''INFO'', return_raw_result = False\<rparr>"

definition raw_options :: options where
  "raw_options =
     \<lparr>validate_input = False, validate_output = False, log_execution = False,
      log_level = ''INFO'', return_raw_result = True\<rparr>"

definition debug_options :: options where
  "debug_options =
     \<lparr>validate_input = True, validate_output = True, log_execution = True,
      log_level = ''DEBUG'', return_raw_result = False\<rparr>"

text \<open>\<^verbatim>\<open>UserInput(name="John Doe", age=30, email="john@example.com")\<close>\<close>

definition john :: pyval where
  "john =
     VObj (cls_mro UserInput) False
       [(''name'', VStr ''John Doe''), (''age'', VInt 30), (''email'', VStr ''john@example.com'')]"

definition only_name :: pyval where
  "only_name = VDict [(VStr ''name'', VStr ''John'')]"

definition keyed_by_number :: pyval where
  "keyed_by_number = VDict [(VStr ''name'', VStr ''John''), (VInt 1, VStr ''x'')]"

definition invalid_user :: pyval where
  "invalid_user =
     VDict [(VStr ''name'', VStr ''John''), (VStr ''age'', VStr ''thirty''),
            (VStr ''email'', VStr ''invalid'')]"

text \<open>A dictionary whose key is an instance of \<^verbatim>\<open>class Foo: pass\<close>.\<close>

definition keyed_by_object :: pyval where
  "keyed_by_object = VDict [(VObj [''Foo'', ''object''] False [], VInt 1)]"

definition clock_set_back :: samples where
  "clock_set_back =
     \<lparr>start_time = 101, memory_before = 5000, cpu_before = 0,
      end_time = 100, memory_after = 5200, cpu_after = 3,
      now_iso = ''2025-01-01T00:00:00'', format_exc = some_trace,
      log_time = ''2024-12-31T23:00:00Z''\<rparr>"

section \<open>Properties of the wrapper\<close>

lemmas eval_defs =
  wrapper_def raises_def try_block_def input_validation_def scan_errors_def except_input_def
  build_result_def model_dump_def structured_logging_def logger_method_def event_dict_def
  set_key_def items_def monitor_function_def get_type_hints_def py_def_def bind_plain_def
  divide_numbers_def divide_numbers_body_def create_user_def create_user_body_def
  main_options_def some_samples_def some_trace_def model_hint_def is_model_def
  param_check_def coerce_def isinstance_def unpack_fields_def UserInput_def UserOutput_def
  float_class_def int_class_def BaseModel_init_def violations_def UserInput_fields_def
  UserOutput_fields_def takes_str_def takes_int_def digits_def getattr_def
  except_Exception_def is_ValidationError_def is_Exception_def TypeError_def
  AttributeError_def ValueError_def ValidationError_def SystemExit_def upper_def
  upper_char_def quote_def user_count_def echo_def link_users_def shut_down_def
  builtin_min_def stepper_def john_def only_name_def quiet_options_def raw_options_def
  debug_options_def keyed_by_number_def invalid_user_def keyed_by_object_def
  clock_set_back_def leaves_loop_def escapes_def

subsection \<open>The guarded block\<close>

lemma try_block_status:
  "(l_status (try_block opts func sig type_hints s args kwargs) = ''error'')
     = (l_errors (try_block opts func sig type_hints s args kwargs) \<noteq> [])"
  by (simp add: try_block_def Let_def except_Exception_def split: sum.splits option.splits)

lemma try_block_status_cases:
  "l_status (try_block opts func sig type_hints s args kwargs) = ''success''
     \<or> l_status (try_block opts func sig type_hints s args kwargs) = ''error''"
  by (simp add: try_block_def Let_def except_Exception_def split: sum.splits option.splits)




lemma try_block_called:
  "l_called (try_block opts func sig type_hints s args kwargs)
     = (input_validation opts sig type_hints args kwargs = Inr [])"
  by (simp add: try_block_def Let_def except_Exception_def split: sum.splits option.splits)

lemma try_block_not_called:
  assumes "input_validation opts sig type_hints args kwargs \<noteq> Inr []"
  shows "try_block opts (func\<lparr>fn_call := g\<rparr>) sig type_hints s args kwargs
       = try_block opts func sig type_hints s args kwargs"
  using assms by (simp add: try_block_def Let_def split: sum.splits)

subsection \<open>One invocation\<close>


lemma envelope_SomeD:
  assumes "envelope (wrapper LOG_LEVEL opts func s args kwargs) = Some env"
  shows "\<exists>sig type_hints name.
           fn_signature func = Inr sig \<and> get_type_hints func = Inr type_hints
           \<and> l_raised (try_block opts func sig type_hints s args kwargs) = None
           \<and> fn_name func = Inr name
           \<and> env = build_result name s (try_block opts func sig type_hints s args kwargs)"
  using assms
  by (auto simp: wrapper_def raises_def Let_def split: sum.splits option.splits)

lemma called_wrapperD:
  assumes "called (wrapper LOG_LEVEL opts func s args kwargs)"
  shows "\<exists>sig type_hints.
           fn_signature func = Inr sig \<and> get_type_hints func = Inr type_hints
           \<and> input_validation opts sig type_hints args kwargs = Inr []"
  using assms
  by (auto simp: wrapper_def raises_def Let_def try_block_called
        split: sum.splits option.splits)

lemma get_type_hints_fn_call_update:
  "get_type_hints (func\<lparr>fn_call := g\<rparr>) = get_type_hints func"
  by (simp add: get_type_hints_def)

lemma wrapper_fn_call_update:
  assumes "fn_signature func = Inr sig" and "get_type_hints func = Inr type_hints"
      and "input_validation opts sig type_hints args kwargs \<noteq> Inr []"
  shows "wrapper LOG_LEVEL opts (func\<lparr>fn_call := g\<rparr>) s args kwargs
       = wrapper LOG_LEVEL opts func s args kwargs"
  using assms
  by (simp add: wrapper_def get_type_hints_fn_call_update try_block_not_called Let_def
        split: option.splits sum.splits)

subsection \<open>The scan of the bound arguments\<close>

lemma validate_params_extends:
  "validate_params type_hints bound errs = (errs', x) \<Longrightarrow> \<exists>rest. errs' = errs @ rest"
proof (induction bound arbitrary: errs)
  case Nil
  then show ?case by simp
next
  case (Cons a bound)
  obtain p v where a: "a = (p, v)" by (cases a)
  show ?case
  proof (cases "param_check type_hints p v")
    case None
    with Cons a show ?thesis by simp
  next
    case (Some e)
    show ?thesis
    proof (cases "is_ValidationError e")
      case True
      with Cons.prems a Some
      have "validate_params type_hints bound
              (errs @ [''Input validation failed for '' @ p @ '': '' @ exn_str e]) = (errs', x)"
        by simp
      from Cons.IH [OF this] show ?thesis by auto
    next
      case False
      with Cons.prems a Some show ?thesis by simp
    qed
  qed
qed

lemma validate_params_raising:
  assumes "param_check type_hints p v = Some e"
      and "validate_params type_hints (pre @ (p, v) # post) errs = (errs', x)"
  shows "errs' \<noteq> [] \<or> x \<noteq> None"
  using assms
proof (induction pre arbitrary: errs)
  case Nil
  show ?case
  proof (cases "is_ValidationError e")
    case True
    with Nil have "validate_params type_hints post
              (errs @ [''Input validation failed for '' @ p @ '': '' @ exn_str e]) = (errs', x)"
      by simp
    from validate_params_extends [OF this] show ?thesis by auto
  next
    case False
    with Nil have "x = Some e" by simp
    then show ?thesis by simp
  qed
next
  case (Cons a pre)
  obtain q u where a: "a = (q, u)" by (cases a)
  show ?case
  proof (cases "param_check type_hints q u")
    case None
    with Cons a show ?thesis by simp
  next
    case (Some e')
    show ?thesis
    proof (cases "is_ValidationError e'")
      case True
      with Cons.prems a Some
      have "validate_params type_hints (pre @ (p, v) # post)
              (errs @ [''Input validation failed for '' @ q @ '': '' @ exn_str e']) = (errs', x)"
        by simp
      from Cons.IH [OF Cons.prems(1) this] show ?thesis .
    next
      case False
      with Cons.prems a Some have "x = Some e'" by simp
      then show ?thesis by simp
    qed
  qed
qed

text \<open>While no argument leaves the loop, the scan of a list continues with the next one.\<close>

lemma validate_params_append:
  assumes "\<not> list_ex (leaves_loop type_hints) xs"
  shows "validate_params type_hints (xs @ zs) errs
       = validate_params type_hints zs (fst (validate_params type_hints xs errs))"
  using assms
proof (induction xs arbitrary: errs)
  case Nil
  then show ?case by simp
next
  case (Cons a xs)
  obtain q u where a: "a = (q, u)" by (cases a)
  show ?case
  proof (cases "param_check type_hints q u")
    case None
    with Cons a show ?thesis by simp
  next
    case (Some e')
    with Cons.prems a have "is_ValidationError e'" by (simp add: leaves_loop_def)
    with Cons a Some show ?thesis by simp
  qed
qed

lemma validate_params_records:
  assumes "param_check type_hints p v = Some e" and "is_ValidationError e"
      and "\<not> list_ex (leaves_loop type_hints) pre"
      and "validate_params type_hints (pre @ (p, v) # post) errs = (errs', x)"
  shows "''Input validation failed for '' @ p @ '': '' @ exn_str e \<in> set errs'"
proof -
  let ?mid = "fst (validate_params type_hints pre errs)"
  have "validate_params type_hints post
          (?mid @ [''Input validation failed for '' @ p @ '': '' @ exn_str e]) = (errs', x)"
    using assms by (simp add: validate_params_append)
  from validate_params_extends [OF this] show ?thesis by auto
qed

lemma validate_params_leaves:
  assumes "\<not> list_ex (leaves_loop type_hints) xs"
      and "param_check type_hints q u = Some e" and "\<not> is_ValidationError e"
  shows "validate_params type_hints (xs @ (q, u) # ys) errs
       = (fst (validate_params type_hints xs errs), Some e)"
  using assms by (simp add: validate_params_append)

lemma validate_params_exn:
  "validate_params type_hints bound errs = (errs', Some e)
     \<Longrightarrow> \<exists>pv \<in> set bound. param_check type_hints (fst pv) (snd pv) = Some e
                            \<and> \<not> is_ValidationError e"
proof (induction bound arbitrary: errs)
  case Nil
  then show ?case by simp
next
  case (Cons a bound)
  obtain q u where a: "a = (q, u)" by (cases a)
  show ?case
  proof (cases "param_check type_hints q u")
    case None
    with Cons a show ?thesis by auto
  next
    case (Some e')
    show ?thesis
    proof (cases "is_ValidationError e'")
      case True
      with Cons a Some show ?thesis by auto
    next
      case False
      with Cons.prems a Some have "e' = e" by simp
      with a Some False show ?thesis by simp
    qed
  qed
qed

lemma scan_errors_Inr:
  assumes "\<not> list_ex (escapes type_hints) bound"
  shows "\<exists>errs. scan_errors type_hints bound = Inr errs"
proof (cases "validate_params type_hints bound []")
  case (Pair errs x)
  show ?thesis
  proof (cases x)
    case None
    with Pair show ?thesis by (simp add: scan_errors_def)
  next
    case (Some e)
    with Pair obtain pv where pv: "pv \<in> set bound"
        "param_check type_hints (fst pv) (snd pv) = Some e" "\<not> is_ValidationError e"
      using validate_params_exn by blast
    with assms have "is_Exception e"
      by (auto simp: list_ex_iff escapes_def)
    with Pair Some show ?thesis
      by (simp add: scan_errors_def except_input_def)
  qed
qed

lemma validate_params_skip:
  assumes "param_check type_hints p v = None"
  shows "validate_params type_hints (pre @ (p, v) # post) errs
       = validate_params type_hints (pre @ post) errs"
  using assms by (induction pre arbitrary: errs) (auto split: option.splits)

lemma model_hint_nonempty: "model_hint type_hints p = Some c \<Longrightarrow> type_hints \<noteq> []"
  by (auto simp: model_hint_def)

subsection \<open>Status and errors\<close>

text \<open>
  C1. For every invocation that builds an envelope, the status of the envelope is
  \<^verbatim>\<open>error\<close> exactly when its errors are present and not empty, and \<^verbatim>\<open>success\<close>
  exactly when they are absent.
\<close>

theorem status_error_iff_errors:
  assumes "envelope (wrapper LOG_LEVEL opts func s args kwargs) = Some env"
  shows "(status env = ''error'' \<longleftrightarrow> (\<exists>es. errors env = Some es \<and> es \<noteq> []))
     \<and> (status env = ''success'' \<longleftrightarrow> errors env = None)"
proof -
  from envelope_SomeD [OF assms] obtain sig type_hints name where
    env: "env = build_result name s (try_block opts func sig type_hints s args kwargs)"
    by blast
  let ?l = "try_block opts func sig type_hints s args kwargs"
  have a: "(l_status ?l = ''error'') = (l_errors ?l \<noteq> [])"
    by (rule try_block_status)
  have b: "l_status ?l = ''success'' \<or> l_status ?l = ''error''"
    by (rule try_block_status_cases)
  show ?thesis
    unfolding env using a b by (auto simp: build_result_def)
qed

text \<open>The three calls of \<^verbatim>\<open>main.py\<close>.\<close>

theorem status_error_iff_errors_witness:
  "(\<exists>env. envelope (wrapper DEBUG main_options (create_user ''t'') some_samples [john] [])
             = Some env
          \<and> status env = ''success'' \<and> errors env = None)
   \<and> (\<exists>env es. envelope (wrapper DEBUG main_options divide_numbers some_samples
                    [VInt 10, VInt 0] []) = Some env
          \<and> status env = ''error'' \<and> errors env = Some es \<and> es \<noteq> [])
   \<and> (\<exists>env es. envelope (wrapper DEBUG main_options (create_user ''t'') some_samples
                    [invalid_user] []) = Some env
          \<and> status env = ''error'' \<and> errors env = Some es \<and> es \<noteq> [])"
proof -
  obtain e1 where e1:
    "envelope (wrapper DEBUG main_options (create_user ''t'') some_samples [john] []) = Some e1"
    "status e1 = ''success''"
    by (simp add: eval_defs)
  obtain e2 where e2:
    "envelope (wrapper DEBUG main_options divide_numbers some_samples [VInt 10, VInt 0] [])
       = Some e2"
    "status e2 = ''error''"
    by (simp add: eval_defs)
  obtain e3 where e3:
    "envelope (wrapper DEBUG main_options (create_user ''t'') some_samples [invalid_user] [])
       = Some e3"
    "status e3 = ''error''"
    by (simp add: eval_defs)
  from status_error_iff_errors [OF e1(1)] status_error_iff_errors [OF e2(1)]
    status_error_iff_errors [OF e3(1)] e1 e2 e3
  show ?thesis by auto
qed

subsection \<open>Wrapping twice\<close>






subsection \<open>Input validation\<close>

lemma BaseModel_init_violations:
  assumes "violations decl kw \<noteq> []"
  shows "\<exists>e. BaseModel_init nm decl kw = Some e \<and> is_ValidationError e"
  using assms
  by (cases "violations decl kw")
     (simp_all add: BaseModel_init_def ValidationError_def is_ValidationError_def)

text \<open>
  C3, as amended. For every invocation with \<^verbatim>\<open>validate_input\<close> enabled in which the
  arguments bind and some bound argument has a structured-record type (a pydantic model
  without validators of its own), is not an instance of it, is a mapping with string keys
  or an object with a field dictionary, and is missing a required field or has a mistyped
  field:
  \<^item> the underlying function is not called: the invocation is the same whatever the
    function would do;
  \<^item> an envelope that is built has status \<^verbatim>\<open>error\<close>, no result, and errors;
  \<^item> when no argument bound before it leaves the scan, these errors contain an entry that
    starts with \<^verbatim>\<open>Input validation failed for <param>:\<close>;
  \<^item> when the check of some bound argument raises an exception other than
    \<^verbatim>\<open>ValidationError\<close>, the scan ends at the first such argument: if
    \<^verbatim>\<open>except Exception\<close> takes the exception, the errors are the entries recorded
    before it followed by the one entry \<^verbatim>\<open>Input validation error: <details>\<close>;
    otherwise the exception leaves the wrapper, and no envelope is built;
  \<^item> an envelope is built when \<^verbatim>\<open>func.__name__\<close> can be read and no check raises an
    exception that leaves the wrapper.
\<close>

theorem input_validation_failure_blocks_call:
  assumes "validate_input opts"
      and "fn_signature func = Inr sig"
      and "get_type_hints func = Inr type_hints"
      and "sig args kwargs = Inr (pre @ (p, v) # post)"
      and "model_hint type_hints p = Some c"
      and "cls_init c = BaseModel_init nm decl"
      and "\<not> isinstance v c"
      and "unpack_fields v = Inr kw"
      and "violations decl kw \<noteq> []"
  shows "\<not> called (wrapper LOG_LEVEL opts func s args kwargs)
     \<and> wrapper LOG_LEVEL opts (func\<lparr>fn_call := g\<rparr>) s args kwargs
         = wrapper LOG_LEVEL opts func s args kwargs
     \<and> (\<forall>env. envelope (wrapper LOG_LEVEL opts func s args kwargs) = Some env \<longrightarrow>
          status env = ''error'' \<and> result env = VNone
          \<and> (\<exists>es. errors env = Some es \<and> es \<noteq> []))
     \<and> (\<not> list_ex (leaves_loop type_hints) pre \<longrightarrow>
          (\<forall>env. envelope (wrapper LOG_LEVEL opts func s args kwargs) = Some env \<longrightarrow>
             (\<exists>es entry. errors env = Some es \<and> entry \<in> set es
                \<and> prefix (''Input validation failed for '' @ p @ '':'') entry)))
     \<and> (\<forall>xs q u ys e.
          pre @ (p, v) # post = xs @ (q, u) # ys
          \<and> \<not> list_ex (leaves_loop type_hints) xs
          \<and> param_check type_hints q u = Some e \<and> \<not> is_ValidationError e \<longrightarrow>
            (is_Exception e \<longrightarrow>
               (\<forall>env. envelope (wrapper LOG_LEVEL opts func s args kwargs) = Some env \<longrightarrow>
                  errors env
                    = Some (fst (validate_params type_hints xs [])
                              @ [''Input validation error: '' @ exn_str e])))
            \<and> (\<not> is_Exception e \<longrightarrow>
                 returned (wrapper LOG_LEVEL opts func s args kwargs) = Inl e
                 \<and> envelope (wrapper LOG_LEVEL opts func s args kwargs) = None))
     \<and> (\<forall>name. fn_name func = Inr name
          \<and> \<not> list_ex (escapes type_hints) (pre @ (p, v) # post) \<longrightarrow>
            envelope (wrapper LOG_LEVEL opts func s args kwargs) \<noteq> None)"
proof -
  let ?bound = "pre @ (p, v) # post"
  let ?iv = "input_validation opts sig type_hints args kwargs"
  let ?l = "try_block opts func sig type_hints s args kwargs"
  let ?out = "wrapper LOG_LEVEL opts func s args kwargs"
  let ?msg = "''Input validation failed for '' @ p @ '': ''"
  obtain errs' x where vp: "validate_params type_hints ?bound [] = (errs', x)"
    by (cases "validate_params type_hints ?bound []")
  obtain e0 where e0: "BaseModel_init nm decl kw = Some e0" and ve: "is_ValidationError e0"
    using BaseModel_init_violations [OF assms(9)] by blast
  have pc: "param_check type_hints p v = Some e0"
    using assms(5-8) e0 by (simp add: param_check_def coerce_def)
  have ne: "type_hints \<noteq> []"
    using assms(5) by (rule model_hint_nonempty)
  have iv: "?iv = scan_errors type_hints ?bound"
    using assms(1,4) ne by (simp add: input_validation_def)
  have scan: "scan_errors type_hints ?bound
      = (case x of None \<Rightarrow> Inr errs' | Some e \<Rightarrow> except_input e errs')"
    using vp by (simp add: scan_errors_def)
  have nonempty: "errs' \<noteq> [] \<or> x \<noteq> None"
    using pc vp by (rule validate_params_raising)
  have iv_cases: "(\<exists>errs. ?iv = Inr errs \<and> errs \<noteq> []) \<or> (\<exists>e. ?iv = Inl e)"
    unfolding iv scan using nonempty
    by (cases x) (auto simp: except_input_def)
  then have not_ok: "?iv \<noteq> Inr []"
    by auto
  have c1: "\<not> called ?out"
    using called_wrapperD [of LOG_LEVEL opts func s args kwargs] assms(2,3) not_ok by auto
  have c2: "wrapper LOG_LEVEL opts (func\<lparr>fn_call := g\<rparr>) s args kwargs = ?out"
    using assms(2,3) not_ok by (rule wrapper_fn_call_update)
  have tb: "l_raised ?l = None \<Longrightarrow>
      \<exists>errs. ?iv = Inr errs \<and> errs \<noteq> []
        \<and> ?l = \<lparr>l_result = VNone, l_status = ''error'', l_errors = errs, l_called = False,
                 l_raised = None\<rparr>"
    using iv_cases by (auto simp: try_block_def Let_def)
  have env_l: "\<exists>name. l_raised ?l = None \<and> env = build_result name s ?l"
    if "envelope ?out = Some env" for env
    using envelope_SomeD [OF that] assms(2,3) by auto
  have c3: "status env = ''error'' \<and> result env = VNone
      \<and> (\<exists>es. errors env = Some es \<and> es \<noteq> [])"
    if "envelope ?out = Some env" for env
  proof -
    from env_l [OF that] obtain name where r: "l_raised ?l = None"
      and env: "env = build_result name s ?l" by blast
    from tb [OF r] show ?thesis
      unfolding env by (auto simp: build_result_def)
  qed
  have errs_of: "errors env = Some errs"
    if "envelope ?out = Some env" "?iv = Inr errs" for env errs
  proof -
    from env_l [OF that(1)] obtain name where r: "l_raised ?l = None"
      and env: "env = build_result name s ?l" by blast
    from tb [OF r] that(2) show ?thesis
      unfolding env by (auto simp: build_result_def)
  qed
  have c4: "\<exists>es entry. errors env = Some es \<and> entry \<in> set es
      \<and> prefix (''Input validation failed for '' @ p @ '':'') entry"
    if nl: "\<not> list_ex (leaves_loop type_hints) pre" and en: "envelope ?out = Some env" for env
  proof -
    have rec: "?msg @ exn_str e0 \<in> set errs'"
      using validate_params_records [OF pc ve nl vp] by simp
    from env_l [OF en] have r: "l_raised ?l = None" by blast
    from tb [OF r] obtain errs where errs: "?iv = Inr errs" by blast
    then have "set errs' \<subseteq> set errs"
      unfolding iv scan by (cases x) (auto simp: except_input_def split: if_splits)
    with rec have "?msg @ exn_str e0 \<in> set errs" by blast
    moreover have "prefix (''Input validation failed for '' @ p @ '':'') (?msg @ exn_str e0)"
      by (simp add: prefix_def)
    ultimately show ?thesis
      using errs_of [OF en errs] by blast
  qed
  have c5: "(is_Exception e \<longrightarrow>
               (\<forall>env. envelope ?out = Some env \<longrightarrow>
                  errors env
                    = Some (fst (validate_params type_hints xs [])
                              @ [''Input validation error: '' @ exn_str e])))
            \<and> (\<not> is_Exception e \<longrightarrow> returned ?out = Inl e \<and> envelope ?out = None)"
    if dec: "?bound = xs @ (q, u) # ys" and nl: "\<not> list_ex (leaves_loop type_hints) xs"
      and qc: "param_check type_hints q u = Some e" and nv: "\<not> is_ValidationError e"
    for xs q u ys e
  proof -
    have "validate_params type_hints ?bound []
        = (fst (validate_params type_hints xs []), Some e)"
      unfolding dec using nl qc nv by (rule validate_params_leaves)
    then have iv': "?iv = except_input e (fst (validate_params type_hints xs []))"
      unfolding iv by (simp add: scan_errors_def)
    show ?thesis
    proof (cases "is_Exception e")
      case True
      then have "?iv = Inr (fst (validate_params type_hints xs [])
                             @ [''Input validation error: '' @ exn_str e])"
        using iv' by (simp add: except_input_def)
      with True errs_of show ?thesis by blast
    next
      case False
      then have "?iv = Inl e"
        using iv' by (simp add: except_input_def)
      then have "l_raised ?l = Some e"
        by (simp add: try_block_def Let_def)
      then have "returned ?out = Inl e \<and> envelope ?out = None"
        using assms(2,3) by (simp add: wrapper_def raises_def Let_def)
      with False show ?thesis by simp
    qed
  qed
  have c6: "envelope ?out \<noteq> None"
    if nm: "fn_name func = Inr name" and ne: "\<not> list_ex (escapes type_hints) ?bound" for name
  proof -
    from scan_errors_Inr [OF ne] obtain errs where "?iv = Inr errs"
      unfolding iv by blast
    with not_ok have "l_raised ?l = None"
      by (simp add: try_block_def Let_def)
    with assms(2,3) nm show ?thesis
      by (simp add: wrapper_def Let_def)
  qed
  from c1 c2 c3 c4 c5 c6 show ?thesis
    by blast
qed

text \<open>
  \<^verbatim>\<open>link_users\<close> on a \<^verbatim>\<open>UserInput\<close> instance and the dictionary of the third call of
  \<^verbatim>\<open>main.py\<close>, whose age is the string \<^verbatim>\<open>thirty\<close>: the scan passes the first
  argument and records the second. \<^verbatim>\<open>link_users\<close> on a dictionary that only has a name
  and on \<^verbatim>\<open>None\<close>: the first argument is recorded, and the second ends the scan with
  an \<^verbatim>\<open>AttributeError\<close>.
\<close>

theorem input_validation_failure_blocks_call_witness:
  "validate_input main_options
   \<and> fn_signature link_users = Inr (bind_plain [Param ''first'' None, Param ''second'' None])
   \<and> get_type_hints link_users
       = Inr [(''first'', HType UserInput), (''second'', HType UserInput)]
   \<and> bind_plain [Param ''first'' None, Param ''second'' None] [john, invalid_user] []
       = Inr ([(''first'', john)] @ (''second'', invalid_user) # [])
   \<and> model_hint [(''first'', HType UserInput), (''second'', HType UserInput)] ''second''
       = Some UserInput
   \<and> cls_init UserInput = BaseModel_init ''UserInput'' UserInput_fields
   \<and> \<not> isinstance invalid_user UserInput
   \<and> unpack_fields invalid_user
       = Inr [(''name'', VStr ''John''), (''age'', VStr ''thirty''), (''email'', VStr ''invalid'')]
   \<and> violations UserInput_fields
         [(''name'', VStr ''John''), (''age'', VStr ''thirty''), (''email'', VStr ''invalid'')]
       = [''age'']
   \<and> \<not> list_ex (leaves_loop [(''first'', HType UserInput), (''second'', HType UserInput)])
         [(''first'', john)]
   \<and> \<not> called (wrapper DEBUG main_options link_users some_samples [john, invalid_user] [])
   \<and> (\<exists>env es entry.
         envelope (wrapper DEBUG main_options link_users some_samples [john, invalid_user] [])
           = Some env
         \<and> status env = ''error'' \<and> result env = VNone
         \<and> errors env = Some es \<and> entry \<in> set es
         \<and> prefix ''Input validation failed for second:'' entry)
   \<and> bind_plain [Param ''first'' None, Param ''second'' None] [only_name, VNone] []
       = Inr ([] @ (''first'', only_name) # [(''second'', VNone)])
   \<and> violations UserInput_fields [(''name'', VStr ''John'')] = [''age'', ''email'']
   \<and> param_check [(''first'', HType UserInput), (''second'', HType UserInput)] ''second'' VNone
       = Some (AttributeError
                 (quote @ ''NoneType'' @ quote @ '' object has no attribute ''
                    @ quote @ ''__dict__'' @ quote))
   \<and> \<not> called (wrapper DEBUG main_options link_users some_samples [only_name, VNone] [])
   \<and> (\<exists>env.
         envelope (wrapper DEBUG main_options link_users some_samples [only_name, VNone] [])
           = Some env
         \<and> errors env
             = Some [''Input validation failed for first: validation errors for UserInput: age email'',
                     ''Input validation error: '' @ quote @ ''NoneType'' @ quote
                       @ '' object has no attribute '' @ quote @ ''__dict__'' @ quote])"
proof -
  let ?hints = "[(''first'', HType UserInput), (''second'', HType UserInput)]"
  let ?sig = "bind_plain [Param ''first'' None, Param ''second'' None]"
  let ?kw = "[(''name'', VStr ''John''), (''age'', VStr ''thirty''), (''email'', VStr ''invalid'')]"
  let ?e = "AttributeError (quote @ ''NoneType'' @ quote @ '' object has no attribute ''
                    @ quote @ ''__dict__'' @ quote)"
  have h1: "validate_input main_options"
    by (simp add: main_options_def)
  have h2: "fn_signature link_users = Inr ?sig"
    by (simp add: link_users_def py_def_def)
  have h3: "get_type_hints link_users = Inr ?hints"
    by (simp add: link_users_def py_def_def get_type_hints_def)
  have h4: "?sig [john, invalid_user] [] = Inr ([(''first'', john)] @ (''second'', invalid_user) # [])"
    by (simp add: bind_plain_def)
  have h5: "model_hint ?hints ''second'' = Some UserInput"
    by (simp add: model_hint_def is_model_def UserInput_def)
  have h6: "cls_init UserInput = BaseModel_init ''UserInput'' UserInput_fields"
    by (simp add: UserInput_def)
  have h7: "\<not> isinstance invalid_user UserInput"
    by (simp add: isinstance_def invalid_user_def)
  have h8: "unpack_fields invalid_user = Inr ?kw"
    by (simp add: unpack_fields_def invalid_user_def)
  have h9: "violations UserInput_fields ?kw = [''age'']"
    by (simp add: violations_def UserInput_fields_def takes_str_def takes_int_def digits_def)
  then have h9': "violations UserInput_fields ?kw \<noteq> []"
    by simp
  have h10: "\<not> list_ex (leaves_loop ?hints) [(''first'', john)]"
    by (simp add: eval_defs)
  have n: "fn_name link_users = Inr ''link_users''"
    by (simp add: link_users_def py_def_def)
  have esc1: "\<not> list_ex (escapes ?hints) ([(''first'', john)] @ (''second'', invalid_user) # [])"
    by (simp add: eval_defs)
  have k4: "?sig [only_name, VNone] [] = Inr ([] @ (''first'', only_name) # [(''second'', VNone)])"
    by (simp add: bind_plain_def)
  have k5: "model_hint ?hints ''first'' = Some UserInput"
    by (simp add: model_hint_def is_model_def UserInput_def)
  have k7: "\<not> isinstance only_name UserInput"
    by (simp add: isinstance_def only_name_def)
  have k8: "unpack_fields only_name = Inr [(''name'', VStr ''John'')]"
    by (simp add: unpack_fields_def only_name_def)
  have k9: "violations UserInput_fields [(''name'', VStr ''John'')] = [''age'', ''email'']"
    by (simp add: violations_def UserInput_fields_def takes_str_def takes_int_def digits_def)
  then have k9': "violations UserInput_fields [(''name'', VStr ''John'')] \<noteq> []"
    by simp
  have k10: "\<not> list_ex (leaves_loop ?hints) [(''first'', only_name)]"
    by (simp add: eval_defs)
  have k11: "param_check ?hints ''second'' VNone = Some ?e"
    by (simp add: eval_defs)
  have k12: "\<not> is_ValidationError ?e" and k13: "is_Exception ?e"
    by (simp_all add: AttributeError_def is_ValidationError_def is_Exception_def)
  have k14: "fst (validate_params ?hints [(''first'', only_name)] [])
      = [''Input validation failed for first: validation errors for UserInput: age email'']"
    by (simp add: eval_defs)
  have esc2: "\<not> list_ex (escapes ?hints) ([] @ (''first'', only_name) # [(''second'', VNone)])"
    by (simp add: eval_defs)
  note t1 = input_validation_failure_blocks_call
    [OF h1 h2 h3 h4 h5 h6 h7 h8 h9', of DEBUG some_samples]
  note t2 = input_validation_failure_blocks_call
    [OF h1 h2 h3 k4 k5 h6 k7 k8 k9', of DEBUG some_samples]
  from t1 n esc1 obtain env1 where env1:
    "envelope (wrapper DEBUG main_options link_users some_samples [john, invalid_user] [])
       = Some env1"
    by blast
  from t1 env1 h10 have a1:
    "\<exists>es entry. status env1 = ''error'' \<and> result env1 = VNone
        \<and> errors env1 = Some es \<and> entry \<in> set es
        \<and> prefix ''Input validation failed for second:'' entry"
    by auto
  from t2 n esc2 obtain env2 where env2:
    "envelope (wrapper DEBUG main_options link_users some_samples [only_name, VNone] [])
       = Some env2"
    by blast
  have dec: "[] @ (''first'', only_name) # [(''second'', VNone)]
      = [(''first'', only_name)] @ (''second'', VNone) # []"
    by simp
  from t2 dec k10 k11 k12 k13 env2 have
    "errors env2 = Some (fst (validate_params ?hints [(''first'', only_name)] [])
                          @ [''Input validation error: '' @ exn_str ?e])"
    by blast
  then have a2: "errors env2
      = Some [''Input validation failed for first: validation errors for UserInput: age email'',
              ''Input validation error: '' @ quote @ ''NoneType'' @ quote
                @ '' object has no attribute '' @ quote @ ''__dict__'' @ quote]"
    unfolding k14 by (simp add: AttributeError_def)
  from t1 t2 have c: "\<not> called (wrapper DEBUG main_options link_users some_samples [john, invalid_user] [])"
    "\<not> called (wrapper DEBUG main_options link_users some_samples [only_name, VNone] [])"
    by blast+
  show ?thesis
    using h1 h2 h3 h4 h5 h6 h7 h8 h9 h10 k4 k9 k11 c env1 a1 env2 a2 by blast
qed

text \<open>
  C3 as stated fails in two ways. \<^verbatim>\<open>link_users\<close> called on \<^verbatim>\<open>None\<close> and on a
  dictionary that only has a name: the check of the first argument raises
  \<^verbatim>\<open>AttributeError\<close>, the loop ends before the second argument, which lacks two
  required fields, is looked at, and the only entry of the errors starts with
  \<^verbatim>\<open>Input validation error:\<close>. \<^verbatim>\<open>create_user\<close> on a dictionary that lacks the
  fields \<^verbatim>\<open>age\<close> and \<^verbatim>\<open>email\<close> and has the key 1: the keyword unpacking raises
  \<^verbatim>\<open>TypeError\<close>, which the same handler records.
\<close>

theorem input_validation_other_exception_counterexample:
  "validate_input main_options
   \<and> bind_plain [Param ''first'' None, Param ''second'' None] [VNone, only_name] []
       = Inr [(''first'', VNone), (''second'', only_name)]
   \<and> model_hint [(''first'', HType UserInput), (''second'', HType UserInput)] ''second''
       = Some UserInput
   \<and> only_name = VDict [(VStr ''name'', VStr ''John'')]
   \<and> violations UserInput_fields [(''name'', VStr ''John'')] = [''age'', ''email'']
   \<and> map_option errors
         (envelope (wrapper DEBUG main_options link_users some_samples [VNone, only_name] []))
       = Some (Some [''Input validation error: '' @ quote @ ''NoneType'' @ quote
                       @ '' object has no attribute '' @ quote @ ''__dict__'' @ quote])
   \<and> bind_plain [Param ''user_data'' None] [keyed_by_number] []
       = Inr [(''user_data'', keyed_by_number)]
   \<and> model_hint [(''user_data'', HType UserInput), (''return'', HType UserOutput)] ''user_data''
       = Some UserInput
   \<and> keyed_by_number = VDict [(VStr ''name'', VStr ''John''), (VInt 1, VStr ''x'')]
   \<and> \<not> isinstance keyed_by_number UserInput
   \<and> map_option errors
         (envelope (wrapper DEBUG main_options (create_user ''t'') some_samples
            [keyed_by_number] []))
       = Some (Some [''Input validation error: keywords must be strings''])"
  by (simp add: eval_defs)

text \<open>
  C9. For every invocation with \<^verbatim>\<open>validate_input\<close> enabled, a bound argument whose
  declared type is not a structured-record type is skipped: its check raises nothing
  whatever its value is, and the errors of the input validation are those of the scan
  of the other arguments.
\<close>

theorem unstructured_argument_skipped:
  assumes "validate_input opts"
      and "sig args kwargs = Inr (pre @ (p, v) # post)"
      and "map_of type_hints p = Some t" and "\<not> is_model t"
  shows "param_check type_hints p v = None
     \<and> validate_params type_hints (pre @ (p, v) # post) errs
         = validate_params type_hints (pre @ post) errs
     \<and> input_validation opts sig type_hints args kwargs = scan_errors type_hints (pre @ post)"
proof -
  have "model_hint type_hints p = None"
    using assms(3,4) by (auto simp: model_hint_def split: hint.splits)
  then have pc: "param_check type_hints p v = None"
    by (simp add: param_check_def)
  have ne: "type_hints \<noteq> []"
    using assms(3) by auto
  show ?thesis
    using assms(1,2) ne pc
    by (simp add: validate_params_skip input_validation_def scan_errors_def)
qed

theorem unstructured_argument_skipped_witness:
  "validate_input main_options
   \<and> bind_plain [Param ''a'' None, Param ''b'' None] [VInt 10, VInt 0] []
       = Inr ([] @ (''a'', VInt 10) # [(''b'', VInt 0)])
   \<and> map_of [(''a'', HType float_class), (''b'', HType float_class),
              (''return'', HType float_class)] ''a'' = Some (HType float_class)
   \<and> \<not> is_model (HType float_class)
   \<and> param_check [(''a'', HType float_class), (''b'', HType float_class),
                   (''return'', HType float_class)] ''a'' (VInt 10) = None
   \<and> input_validation main_options (bind_plain [Param ''a'' None, Param ''b'' None])
         [(''a'', HType float_class), (''b'', HType float_class),
          (''return'', HType float_class)] [VInt 10, VInt 0] []
       = scan_errors [(''a'', HType float_class), (''b'', HType float_class),
                      (''return'', HType float_class)] ([] @ [(''b'', VInt 0)])"
proof -
  have h1: "validate_input main_options"
    by (simp add: main_options_def)
  have h2: "bind_plain [Param ''a'' None, Param ''b'' None] [VInt 10, VInt 0] []
      = Inr ([] @ (''a'', VInt 10) # [(''b'', VInt 0)])"
    by (simp add: bind_plain_def)
  have h3: "map_of [(''a'', HType float_class), (''b'', HType float_class),
              (''return'', HType float_class)] ''a'' = Some (HType float_class)"
    by simp
  have h4: "\<not> is_model (HType float_class)"
    by (simp add: is_model_def float_class_def)
  from unstructured_argument_skipped
         [where sig = "bind_plain [Param ''a'' None, Param ''b'' None]"
            and args = "[VInt 10, VInt 0]" and kwargs = "[]", OF h1 h2 h3 h4]
    h1 h2 h3 h4
  show ?thesis by blast
qed



subsection \<open>Execution and output validation\<close>

text \<open>
  The first call of \<^verbatim>\<open>main.py\<close>: \<^verbatim>\<open>create_user\<close> on a \<^verbatim>\<open>UserInput\<close> instance
  succeeds, and the envelope holds the \<^verbatim>\<open>UserOutput\<close> instance it returned.
\<close>

lemma create_user_succeeds:
  "envelope (wrapper DEBUG main_options (create_user ''t'') some_samples [john] [])
     = Some \<lparr>result =
          VObj [''UserOutput'', ''BaseModel'', ''object''] False
            [(''id'', VInt 12345), (''name'', VStr ''John Doe''), (''age'', VInt 30),
             (''email'', VStr ''john@example.com''), (''created_at'', VStr ''t'')],
        status = ''success'', errors = None, execution_time = 1,
        memory_usage =
          [(''before'', 5000), (''after'', 5200), (''peak'', 5200), (''delta'', 200)],
        cpu_usage = 3, timestamp = ''2025-01-01T00:00:00'',
        function_name = ''create_user''\<rparr>"
  by (simp add: eval_defs)




text \<open>
  When the coercion of the returned value raises a \<^verbatim>\<open>ValidationError\<close>, an envelope
  that is built records it as \<^verbatim>\<open>Output validation failed:\<close> and keeps the returned
  value.
\<close>

lemma output_validation_error_keeps_result:
  assumes "called (wrapper LOG_LEVEL opts func s args kwargs)"
      and "fn_call func args kwargs = Inr res"
      and "validate_output opts"
      and "get_type_hints func = Inr type_hints"
      and "model_hint type_hints ''return'' = Some c"
      and "coerce c res = Some e" and "is_ValidationError e"
      and "envelope (wrapper LOG_LEVEL opts func s args kwargs) = Some env"
  shows "status env = ''error''
     \<and> errors env = Some [''Output validation failed: '' @ exn_str e]
     \<and> result env = res"
proof -
  from called_wrapperD [OF assms(1)] assms(4) obtain sig where
    sg: "fn_signature func = Inr sig"
    and iv: "input_validation opts sig type_hints args kwargs = Inr []"
    by auto
  have tb: "try_block opts func sig type_hints s args kwargs
      = \<lparr>l_result = res, l_status = ''error'',
         l_errors = [''Output validation failed: '' @ exn_str e], l_called = True,
         l_raised = None\<rparr>"
    using iv assms(2,3,5,6,7) by (simp add: try_block_def Let_def)
  from envelope_SomeD [OF assms(8)] sg assms(4) obtain name where
    "env = build_result name s (try_block opts func sig type_hints s args kwargs)"
    by auto
  then show ?thesis
    unfolding tb by (simp add: build_result_def)
qed

text \<open>
  C5. The claim: when the execution succeeds, \<^verbatim>\<open>validate_output\<close> is enabled, the
  declared return type is a structured-record type and the returned value fails the
  accept-or-coerce check, the envelope records an error that starts with
  \<^verbatim>\<open>Output validation failed:\<close>, has status \<^verbatim>\<open>error\<close> and keeps the returned
  value. The code does not do so for a returned value that is neither a dictionary nor
  an object with fields. \<^verbatim>\<open>user_count\<close> declares the return type
  \<^verbatim>\<open>UserOutput\<close> and returns 3: the value is not an instance, reading its
  \<^verbatim>\<open>__dict__\<close> raises \<^verbatim>\<open>AttributeError\<close>, and the handler of line 126 takes it.
  The errors are an \<^verbatim>\<open>Execution error:\<close> entry and a trace, and the result 3 is
  replaced by \<^verbatim>\<open>None\<close>.
\<close>

theorem output_coercion_exception_discards_result:
  "fn_call user_count [] [] = Inr (VInt 3)
   \<and> validate_output main_options
   \<and> get_type_hints user_count = Inr [(''return'', HType UserOutput)]
   \<and> model_hint [(''return'', HType UserOutput)] ''return'' = Some UserOutput
   \<and> \<not> isinstance (VInt 3) UserOutput
   \<and> coerce UserOutput (VInt 3)
       = Some (AttributeError
                 (quote @ ''int'' @ quote @ '' object has no attribute ''
                    @ quote @ ''__dict__'' @ quote))
   \<and> called (wrapper DEBUG main_options user_count some_samples [] [])
   \<and> map_option status (envelope (wrapper DEBUG main_options user_count some_samples [] []))
       = Some ''error''
   \<and> map_option errors (envelope (wrapper DEBUG main_options user_count some_samples [] []))
       = Some (Some
           [''Execution error: '' @ quote @ ''int'' @ quote @ '' object has no attribute ''
              @ quote @ ''__dict__'' @ quote,
            ''Traceback: ''
              @ some_trace (AttributeError
                  (quote @ ''int'' @ quote @ '' object has no attribute ''
                     @ quote @ ''__dict__'' @ quote))])
   \<and> map_option result (envelope (wrapper DEBUG main_options user_count some_samples [] []))
       = Some VNone"
  by (simp add: eval_defs)

subsection \<open>Metrics\<close>

text \<open>
  C8, as amended. For every invocation that builds an envelope, the execution time of the
  envelope is the second reading of the wall clock minus the first, so it is not negative
  when the clock was not set back between the two readings; the memory usage holds the
  two samples under \<^verbatim>\<open>before\<close> and \<^verbatim>\<open>after\<close>, the second sample again under
  \<^verbatim>\<open>peak\<close>, and their difference under \<^verbatim>\<open>delta\<close>.
\<close>

theorem metrics_of_envelope:
  assumes "envelope (wrapper LOG_LEVEL opts func s args kwargs) = Some env"
  shows "execution_time env = end_time s - start_time s
     \<and> (start_time s \<le> end_time s \<longrightarrow> 0 \<le> execution_time env)
     \<and> map_of (memory_usage env) ''before'' = Some (memory_before s)
     \<and> map_of (memory_usage env) ''after'' = Some (memory_after s)
     \<and> map_of (memory_usage env) ''peak'' = Some (memory_after s)
     \<and> map_of (memory_usage env) ''delta'' = Some (memory_after s - memory_before s)"
proof -
  from envelope_SomeD [OF assms] obtain sig type_hints name where
    "env = build_result name s (try_block opts func sig type_hints s args kwargs)"
    by blast
  then show ?thesis
    by (simp add: build_result_def)
qed

theorem metrics_of_envelope_witness:
  "start_time some_samples \<le> end_time some_samples
   \<and> (\<exists>env. envelope (wrapper DEBUG main_options divide_numbers some_samples
                 [VInt 10, VInt 2] []) = Some env
          \<and> 0 \<le> execution_time env
          \<and> map_of (memory_usage env) ''before'' = Some 5000
          \<and> map_of (memory_usage env) ''after'' = Some 5200
          \<and> map_of (memory_usage env) ''peak'' = Some 5200
          \<and> map_of (memory_usage env) ''delta'' = Some (5200 - 5000))"
proof -
  have h: "start_time some_samples \<le> end_time some_samples"
    by (simp add: some_samples_def)
  have a: "memory_after some_samples = 5200" and b: "memory_before some_samples = 5000"
    by (simp_all add: some_samples_def)
  obtain env where env:
    "envelope (wrapper DEBUG main_options divide_numbers some_samples [VInt 10, VInt 2] [])
       = Some env"
    by (simp add: eval_defs)
  from metrics_of_envelope [OF env] h a b env
  show ?thesis by auto
qed

text \<open>
  C8 as stated fails: when the wall clock answers 101 at the start and 100 at the end of
  the call (the system time was set back in between), the execution time is -1.
\<close>

theorem clock_set_back_counterexample:
  "start_time clock_set_back = 101 \<and> end_time clock_set_back = 100
   \<and> map_option execution_time
         (envelope (wrapper DEBUG main_options divide_numbers clock_set_back
            [VInt 10, VInt 2] []))
       = Some (- 1)
   \<and> \<not> 0 \<le> (- 1 :: real)"
  by (simp add: eval_defs)

subsection \<open>Logging\<close>











subsection \<open>What the caller receives\<close>






end
